theory Spec2Isabelle
  imports Complex_Main
begin

section \<open>Data model (package models)\<close>

text \<open>
  A \<open>uuid.UUID\<close> is an opaque key; \<open>uuid.Nil\<close>, the zero value of the Go type, is \<open>0\<close>.
  A \<open>time.Time\<close> is an instant on a line; the zero value of the Go type is \<open>0\<close>.
  Go strings are byte strings and \<open>len\<close> counts bytes, as \<open>length\<close> does on \<open>string\<close>.
  The \<open>int64\<close> counters are integers; the store refuses a value outside \<open>BIGINT\<close>.
\<close>

type_synonym uuid = nat
type_synonym timestamp = int

record Poll =
  Poll_ID :: uuid
  Question :: string
  Description :: "string option"
  Poll_CreatedAt :: timestamp
  ExpiresAt :: "timestamp option"
  IsActive :: bool
  TotalVotes :: int

record PollOption =
  PollOption_ID :: uuid
  PollOption_PollID :: uuid
  OptionText :: string
  VoteCount :: int
  Position :: int
  PollOption_CreatedAt :: timestamp

record Vote =
  Vote_ID :: uuid
  Vote_PollID :: uuid
  Vote_OptionID :: uuid
  VoterIdentifier :: string
  VotedAt :: timestamp

record PollWithOptions =
  PollWithOptions_Poll :: Poll
  PollWithOptions_Options :: "PollOption list"

record OptionResult =
  OptionResult_PollOption :: PollOption
  Percentage :: real

record PollResults =
  PollResults_Poll :: Poll
  PollResults_Options :: "OptionResult list"
  PollResults_TotalVotes :: int
  HasVoted :: bool
  VotedOption :: "uuid option"

record CreatePollRequest =
  Request_Question :: string
  Request_Description :: "string option"
  Request_ExpiresAt :: "timestamp option"
  Request_Options :: "string list"

section \<open>Errors\<close>

text \<open>
  Go errors as values. \<open>Errorf m\<close> is \<open>fmt.Errorf(m)\<close>, \<open>Errorf_d m n\<close> is
  \<open>fmt.Errorf\<close> of a format with one \<open>%d\<close> verb, and \<open>Wrapf m e\<close> is
  \<open>fmt.Errorf(m + ": %w", e)\<close>. The remaining constructors are what \<open>database/sql\<close>
  and the PostgreSQL driver hand back: \<open>sql.ErrNoRows\<close>, the constraint violations of the
  schema (named by constraint), a value too long for \<open>VARCHAR(255)\<close>, a \<open>BIGINT\<close> out of
  range, a negative \<open>LIMIT\<close> or \<open>OFFSET\<close>, and any other failure of the connection.
\<close>

datatype error =
    Errorf string
  | Errorf_d string nat
  | Wrapf string error
  | ErrNoRows
  | UniqueViolation string
  | ForeignKeyViolation string
  | CheckViolation string
  | StringDataRightTruncation
  | NumericValueOutOfRange
  | InvalidRowCount
  | DriverError string

section \<open>The repository interface (PollRepositoryInterface)\<close>

text \<open>
  The service holds a value of the interface type, so the service functions below take the
  repository as a record of its methods. Each method threads the repository's state
  \<open>'s\<close> and returns Go's result tuple, the error last (\<open>None\<close> is \<open>nil\<close>).
  \<open>CreatePoll\<close> and \<open>CastVote\<close> fill in their pointer arguments; the filled values
  are returned with the error.
\<close>

record 's PollRepositoryInterface =
  repo_CreatePoll :: "Poll \<Rightarrow> PollOption list \<Rightarrow> 's \<Rightarrow> (Poll \<times> PollOption list \<times> error option) \<times> 's"
  repo_GetPollByID :: "uuid \<Rightarrow> 's \<Rightarrow> (Poll option \<times> error option) \<times> 's"
  repo_GetPollOptions :: "uuid \<Rightarrow> 's \<Rightarrow> (PollOption list \<times> error option) \<times> 's"
  repo_ListPolls :: "int \<Rightarrow> int \<Rightarrow> bool \<Rightarrow> 's \<Rightarrow> (Poll list \<times> error option) \<times> 's"
  repo_ListPollsWithOptions :: "int \<Rightarrow> int \<Rightarrow> bool \<Rightarrow> 's \<Rightarrow> (PollWithOptions list \<times> error option) \<times> 's"
  repo_CastVote :: "Vote \<Rightarrow> 's \<Rightarrow> (Vote \<times> error option) \<times> 's"
  repo_HasVoted :: "uuid \<Rightarrow> string \<Rightarrow> 's \<Rightarrow> (bool \<times> uuid option \<times> error option) \<times> 's"
  repo_DeletePoll :: "uuid \<Rightarrow> 's \<Rightarrow> error option \<times> 's"
  repo_GetTotalPollsCount :: "bool \<Rightarrow> 's \<Rightarrow> (int \<times> error option) \<times> 's"

section \<open>The service (poll\_service.go)\<close>

text \<open>
  \<open>time.Now()\<close> is the argument \<open>now\<close>. The logger calls have no effect on the results and
  are left out. A service function returns \<open>Inl\<close> of the error or \<open>Inr\<close> of the value
  (\<open>Some\<close> of the error or \<open>None\<close> where Go returns only an error), and the state of the
  repository after the calls it made.
\<close>

text \<open>The validation loop over \<open>req.Options\<close>; \<open>i\<close> is the index of the head.\<close>

fun validate_options :: "nat \<Rightarrow> string list \<Rightarrow> error option" where
  "validate_options i [] = None"
| "validate_options i (opt # rest) =
     (if length opt < 1 \<or> length opt > 200
      then Some (Errorf_d ''option %d must be between 1 and 200 characters'' (i + 1))
      else validate_options (i + 1) rest)"

text \<open>\<open>t.Before(u)\<close> on an optional \<open>t\<close>: the guard \<open>t != nil && t.Before(u)\<close>.\<close>

definition set_and_before :: "timestamp option \<Rightarrow> timestamp \<Rightarrow> bool" where
  "set_and_before t u = (case t of None \<Rightarrow> False | Some t' \<Rightarrow> t' < u)"

text \<open>The loop building \<open>options\<close>; the fields not named keep Go's zero values.\<close>

fun make_options :: "nat \<Rightarrow> string list \<Rightarrow> PollOption list" where
  "make_options i [] = []"
| "make_options i (optText # rest) =
     \<lparr>PollOption_ID = 0, PollOption_PollID = 0, OptionText = optText, VoteCount = 0,
      Position = int i, PollOption_CreatedAt = 0\<rparr> # make_options (i + 1) rest"

definition CreatePoll ::
  "'s PollRepositoryInterface \<Rightarrow> timestamp \<Rightarrow> CreatePollRequest \<Rightarrow> 's \<Rightarrow> (error + PollWithOptions) \<times> 's" where
  "CreatePoll repo now req s =
     (if length (Request_Question req) < 5 \<or> length (Request_Question req) > 500
      then (Inl (Errorf ''question must be between 5 and 500 characters''), s)
      else if length (Request_Options req) < 2
      then (Inl (Errorf ''poll must have at least 2 options''), s)
      else if length (Request_Options req) > 10
      then (Inl (Errorf ''poll can have at most 10 options''), s)
      else
        (case validate_options 0 (Request_Options req) of
           Some e \<Rightarrow> (Inl e, s)
         | None \<Rightarrow>
             (if set_and_before (Request_ExpiresAt req) now
              then (Inl (Errorf ''expiration date must be in the future''), s)
              else
                (let poll = \<lparr>Poll_ID = 0, Question = Request_Question req,
                             Description = Request_Description req, Poll_CreatedAt = 0,
                             ExpiresAt = Request_ExpiresAt req, IsActive = True, TotalVotes = 0\<rparr>;
                     options = make_options 0 (Request_Options req)
                 in (case repo_CreatePoll repo poll options s of
                       ((poll', options', Some err), s') \<Rightarrow>
                         (Inl (Wrapf ''failed to create poll'' err), s')
                     | ((poll', options', None), s') \<Rightarrow>
                         (Inr \<lparr>PollWithOptions_Poll = poll', PollWithOptions_Options = options'\<rparr>,
                          s'))))))"

text \<open>
  The percentage of one option. The \<open>float64\<close> values are real numbers and \<open>fl\<close> is the
  rounding of an exact result to the nearest \<open>float64\<close>: the conversion \<open>float64(n)\<close> of an
  \<open>int64\<close> is \<open>fl (of_int n)\<close>, the quotient of \<open>a\<close> and \<open>b\<close> is \<open>fl (a / b)\<close> and the
  product is \<open>fl (a * b)\<close>. The literals \<open>0.0\<close> and \<open>100\<close> are \<open>float64\<close> values.
\<close>

definition percentage_of :: "(real \<Rightarrow> real) \<Rightarrow> int \<Rightarrow> int \<Rightarrow> real" where
  "percentage_of fl voteCount totalVotes =
     (if totalVotes > 0
      then fl (fl (fl (of_int voteCount) / fl (of_int totalVotes)) * 100)
      else 0)"

definition GetPollResults ::
  "(real \<Rightarrow> real) \<Rightarrow> 's PollRepositoryInterface \<Rightarrow> uuid \<Rightarrow> string \<Rightarrow> 's \<Rightarrow> (error + PollResults) \<times> 's" where
  "GetPollResults fl repo pollID voterIdentifier s =
     (case repo_GetPollByID repo pollID s of
        ((poll, Some err), s1) \<Rightarrow> (Inl (Wrapf ''failed to get poll'' err), s1)
      | ((None, None), s1) \<Rightarrow> (Inl (Errorf ''poll not found''), s1)
      | ((Some poll, None), s1) \<Rightarrow>
          (case repo_GetPollOptions repo pollID s1 of
             ((options, Some err), s2) \<Rightarrow> (Inl (Wrapf ''failed to get options'' err), s2)
           | ((options, None), s2) \<Rightarrow>
               (case repo_HasVoted repo pollID voterIdentifier s2 of
                  ((hasVoted, votedOptionID, err), s3) \<Rightarrow>
                    (Inr \<lparr>PollResults_Poll = poll,
                          PollResults_Options =
                            map (\<lambda>opt. \<lparr>OptionResult_PollOption = opt,
                                         Percentage = percentage_of fl (VoteCount opt) (TotalVotes poll)\<rparr>)
                                options,
                          PollResults_TotalVotes = TotalVotes poll,
                          HasVoted = hasVoted,
                          VotedOption = votedOptionID\<rparr>, s3))))"

text \<open>The \<open>models.Vote\<close> that \<open>CastVote\<close> builds; its id and time keep Go's zero values.\<close>

definition new_vote :: "uuid \<Rightarrow> uuid \<Rightarrow> string \<Rightarrow> Vote" where
  "new_vote pollID optionID voterIdentifier =
     \<lparr>Vote_ID = 0, Vote_PollID = pollID, Vote_OptionID = optionID,
      VoterIdentifier = voterIdentifier, VotedAt = 0\<rparr>"

definition CastVote ::
  "'s PollRepositoryInterface \<Rightarrow> timestamp \<Rightarrow> uuid \<Rightarrow> uuid \<Rightarrow> string \<Rightarrow> 's \<Rightarrow> error option \<times> 's" where
  "CastVote repo now pollID optionID voterIdentifier s =
     (case repo_GetPollByID repo pollID s of
        ((poll, Some err), s1) \<Rightarrow> (Some (Wrapf ''failed to get poll'' err), s1)
      | ((None, None), s1) \<Rightarrow> (Some (Errorf ''poll not found''), s1)
      | ((Some poll, None), s1) \<Rightarrow>
          if \<not> IsActive poll then (Some (Errorf ''poll is not active''), s1)
          else if set_and_before (ExpiresAt poll) now then (Some (Errorf ''poll has expired''), s1)
          else
            (case repo_HasVoted repo pollID voterIdentifier s1 of
               ((hasVoted, votedOptionID, Some err), s2) \<Rightarrow>
                 (Some (Wrapf ''failed to check vote status'' err), s2)
             | ((hasVoted, votedOptionID, None), s2) \<Rightarrow>
                 if hasVoted then (Some (Errorf ''you have already voted on this poll''), s2)
                 else
                   (case repo_GetPollOptions repo pollID s2 of
                      ((options, Some err), s3) \<Rightarrow>
                        (Some (Wrapf ''failed to get poll options'' err), s3)
                    | ((options, None), s3) \<Rightarrow>
                        if \<not> list_ex (\<lambda>opt. PollOption_ID opt = optionID) options
                        then (Some (Errorf ''invalid option for this poll''), s3)
                        else
                          (case repo_CastVote repo (new_vote pollID optionID voterIdentifier) s3 of
                             ((vote, Some err), s4) \<Rightarrow> (Some (Wrapf ''failed to cast vote'' err), s4)
                           | ((vote, None), s4) \<Rightarrow> (None, s4)))))"

definition ListPolls ::
  "'s PollRepositoryInterface \<Rightarrow> int \<Rightarrow> int \<Rightarrow> bool \<Rightarrow> 's \<Rightarrow> (error + PollWithOptions list \<times> int) \<times> 's" where
  "ListPolls repo limit offset activeOnly s =
     (let limit = (if limit \<le> 0 \<or> limit > 100 then 20 else limit);
          offset = (if offset < 0 then 0 else offset)
      in case repo_ListPollsWithOptions repo limit offset activeOnly s of
           ((polls, Some err), s1) \<Rightarrow> (Inl (Wrapf ''failed to list polls'' err), s1)
         | ((polls, None), s1) \<Rightarrow>
             (case repo_GetTotalPollsCount repo activeOnly s1 of
                ((count, Some err), s2) \<Rightarrow> (Inr (polls, 0), s2)
              | ((count, None), s2) \<Rightarrow> (Inr (polls, count), s2)))"

definition DeletePoll :: "'s PollRepositoryInterface \<Rightarrow> uuid \<Rightarrow> 's \<Rightarrow> error option \<times> 's" where
  "DeletePoll repo pollID s =
     (case repo_DeletePoll repo pollID s of
        (Some err, s1) \<Rightarrow> (Some (Wrapf ''failed to delete poll'' err), s1)
      | (None, s1) \<Rightarrow> (None, s1))"

section \<open>The store (the schema script and the SQL of poll\_repository.go)\<close>

text \<open>
  The three tables hold their rows in insertion order. \<open>next_uuid\<close> is what
  \<open>uuid_generate_v4()\<close> returns next, \<open>clock\<close> is \<open>CURRENT_TIMESTAMP\<close> and \<open>NOW()\<close>, and
  \<open>faults\<close> is what the connection does to the coming round trips, one entry for each:
  \<open>Some e\<close> makes the round trip fail with \<open>e\<close> before it touches a table, \<open>None\<close>
  (and an empty list) lets it run.
\<close>

record DB =
  polls :: "Poll list"
  poll_options :: "PollOption list"
  votes :: "Vote list"
  next_uuid :: uuid
  clock :: timestamp
  faults :: "error option list"

definition driver :: "DB \<Rightarrow> error option \<times> DB" where
  "driver db = (case faults db of [] \<Rightarrow> (None, db) | f # fs \<Rightarrow> (f, db\<lparr>faults := fs\<rparr>))"

text \<open>
  \<open>tx.Rollback()\<close>, deferred in every transaction: the tables are those of \<open>db0\<close>, the
  database at \<open>BeginTx\<close>. A failed \<open>tx.Commit()\<close> leaves the tables the same way.
\<close>

definition Rollback :: "DB \<Rightarrow> DB \<Rightarrow> DB" where
  "Rollback db0 db = db\<lparr>polls := polls db0, poll_options := poll_options db0, votes := votes db0\<rparr>"

text \<open>
  \<open>length(text)\<close> of PostgreSQL counts the characters of a UTF-8 string: the bytes that
  are not continuation bytes \<open>10xxxxxx\<close>. \<open>utf8_take n\<close> keeps the first \<open>n\<close> characters.
\<close>

definition continuation_byte :: "char \<Rightarrow> bool" where
  "continuation_byte c = (128 \<le> (of_char c :: nat) \<and> (of_char c :: nat) < 192)"

definition char_length :: "string \<Rightarrow> nat" where
  "char_length s = length (filter (\<lambda>c. \<not> continuation_byte c) s)"

fun utf8_take :: "nat \<Rightarrow> string \<Rightarrow> string" where
  "utf8_take n [] = []"
| "utf8_take n (c # cs) =
     (if continuation_byte c then c # utf8_take n cs
      else (case n of 0 \<Rightarrow> [] | Suc m \<Rightarrow> c # utf8_take m cs))"

text \<open>
  Storing into \<open>VARCHAR(255)\<close>: a longer value is an error unless the excess characters are
  all spaces, and then the value is cut to 255 characters.
\<close>

definition varchar_255 :: "string \<Rightarrow> error + string" where
  "varchar_255 s =
     (if char_length s \<le> 255 then Inr s
      else if list_all (\<lambda>c. c = CHR '' '') (drop (length (utf8_take 255 s)) s)
      then Inr (utf8_take 255 s)
      else Inl StringDataRightTruncation)"

definition bigint_max :: int where
  "bigint_max = 9223372036854775807"

text \<open>
  \<open>INSERT INTO polls (question, description, expires_at, is_active) ... RETURNING id,
  created_at, total_votes\<close>, read by \<open>QueryRowContext(...).Scan\<close>.
\<close>

definition insert_poll :: "Poll \<Rightarrow> DB \<Rightarrow> (error + uuid \<times> timestamp \<times> int) \<times> DB" where
  "insert_poll poll db =
     (case driver db of
        (Some e, db1) \<Rightarrow> (Inl e, db1)
      | (None, db1) \<Rightarrow>
          let new_id = next_uuid db1; db2 = db1\<lparr>next_uuid := Suc new_id\<rparr> in
          if \<not> (5 \<le> char_length (Question poll) \<and> char_length (Question poll) \<le> 500)
          then (Inl (CheckViolation ''polls_question_check''), db2)
          else if list_ex (\<lambda>p. Poll_ID p = new_id) (polls db2)
          then (Inl (UniqueViolation ''polls_pkey''), db2)
          else (Inr (new_id, clock db2, 0),
                db2\<lparr>polls := polls db2 @
                   [\<lparr>Poll_ID = new_id, Question = Question poll, Description = Description poll,
                     Poll_CreatedAt = clock db2, ExpiresAt = ExpiresAt poll,
                     IsActive = IsActive poll, TotalVotes = 0\<rparr>]\<rparr>))"

text \<open>
  \<open>INSERT INTO poll_options (poll_id, option_text, position) ... RETURNING id, created_at,
  vote_count\<close>.
\<close>

definition insert_option :: "PollOption \<Rightarrow> DB \<Rightarrow> (error + uuid \<times> timestamp \<times> int) \<times> DB" where
  "insert_option opt db =
     (case driver db of
        (Some e, db1) \<Rightarrow> (Inl e, db1)
      | (None, db1) \<Rightarrow>
          let new_id = next_uuid db1; db2 = db1\<lparr>next_uuid := Suc new_id\<rparr> in
          if \<not> (1 \<le> char_length (OptionText opt) \<and> char_length (OptionText opt) \<le> 200)
          then (Inl (CheckViolation ''poll_options_option_text_check''), db2)
          else if list_ex (\<lambda>p. PollOption_ID p = new_id) (poll_options db2)
          then (Inl (UniqueViolation ''poll_options_pkey''), db2)
          else if list_ex (\<lambda>p. PollOption_PollID p = PollOption_PollID opt \<and> Position p = Position opt)
                    (poll_options db2)
          then (Inl (UniqueViolation ''unique_poll_position''), db2)
          else if \<not> list_ex (\<lambda>p. Poll_ID p = PollOption_PollID opt) (polls db2)
          then (Inl (ForeignKeyViolation ''poll_options_poll_id_fkey''), db2)
          else (Inr (new_id, clock db2, 0),
                db2\<lparr>poll_options := poll_options db2 @
                   [\<lparr>PollOption_ID = new_id, PollOption_PollID = PollOption_PollID opt,
                     OptionText = OptionText opt, VoteCount = 0, Position = Position opt,
                     PollOption_CreatedAt = clock db2\<rparr>]\<rparr>))"

text \<open>
  The function \<open>update_poll_total_votes\<close> of the trigger \<open>trigger_update_poll_votes\<close>, in
  its \<open>INSERT\<close> branch: \<open>UPDATE polls SET total_votes = total_votes + 1 WHERE id =
  NEW.poll_id\<close>.
\<close>

definition update_poll_total_votes :: "uuid \<Rightarrow> Poll list \<Rightarrow> error + Poll list" where
  "update_poll_total_votes poll_id ps =
     (if list_ex (\<lambda>p. Poll_ID p = poll_id \<and> TotalVotes p + 1 > bigint_max) ps
      then Inl NumericValueOutOfRange
      else Inr (map (\<lambda>p. if Poll_ID p = poll_id then p\<lparr>TotalVotes := TotalVotes p + 1\<rparr> else p) ps))"

text \<open>
  \<open>INSERT INTO votes (poll_id, option_id, voter_identifier) ... RETURNING id, voted_at\<close>,
  with the constraints of the table and the trigger that fires after the row is in.
\<close>

definition insert_vote :: "Vote \<Rightarrow> DB \<Rightarrow> (error + uuid \<times> timestamp) \<times> DB" where
  "insert_vote vote db =
     (case driver db of
        (Some e, db1) \<Rightarrow> (Inl e, db1)
      | (None, db1) \<Rightarrow>
          let new_id = next_uuid db1; db2 = db1\<lparr>next_uuid := Suc new_id\<rparr> in
          (case varchar_255 (VoterIdentifier vote) of
            Inl e \<Rightarrow> (Inl e, db2)
          | Inr voter \<Rightarrow>
              if list_ex (\<lambda>v. Vote_ID v = new_id) (votes db2)
              then (Inl (UniqueViolation ''votes_pkey''), db2)
              else if list_ex (\<lambda>v. Vote_PollID v = Vote_PollID vote \<and> VoterIdentifier v = voter)
                        (votes db2)
              then (Inl (UniqueViolation ''unique_voter_per_poll''), db2)
              else if \<not> list_ex (\<lambda>p. Poll_ID p = Vote_PollID vote) (polls db2)
              then (Inl (ForeignKeyViolation ''votes_poll_id_fkey''), db2)
              else if \<not> list_ex (\<lambda>p. PollOption_ID p = Vote_OptionID vote) (poll_options db2)
              then (Inl (ForeignKeyViolation ''votes_option_id_fkey''), db2)
              else
                (case update_poll_total_votes (Vote_PollID vote) (polls db2) of
                   Inl e \<Rightarrow> (Inl e, db2)
                 | Inr ps \<Rightarrow>
                     (Inr (new_id, clock db2),
                      db2\<lparr>polls := ps,
                          votes := votes db2 @
                            [\<lparr>Vote_ID = new_id, Vote_PollID = Vote_PollID vote,
                              Vote_OptionID = Vote_OptionID vote, VoterIdentifier = voter,
                              VotedAt = clock db2\<rparr>]\<rparr>))))"

text \<open>\<open>UPDATE poll_options SET vote_count = vote_count + 1 WHERE id = $1\<close>.\<close>

definition update_vote_count :: "uuid \<Rightarrow> DB \<Rightarrow> error option \<times> DB" where
  "update_vote_count option_id db =
     (case driver db of
        (Some e, db1) \<Rightarrow> (Some e, db1)
      | (None, db1) \<Rightarrow>
          if list_ex (\<lambda>p. PollOption_ID p = option_id \<and> VoteCount p + 1 > bigint_max) (poll_options db1)
          then (Some NumericValueOutOfRange, db1)
          else (None,
                db1\<lparr>poll_options :=
                      map (\<lambda>p. if PollOption_ID p = option_id then p\<lparr>VoteCount := VoteCount p + 1\<rparr> else p)
                          (poll_options db1)\<rparr>))"

text \<open>\<open>SELECT ... FROM polls WHERE id = $1\<close>, read by \<open>QueryRowContext(...).Scan\<close>.\<close>

definition select_poll :: "uuid \<Rightarrow> DB \<Rightarrow> (error + Poll) \<times> DB" where
  "select_poll poll_id db =
     (case driver db of
        (Some e, db1) \<Rightarrow> (Inl e, db1)
      | (None, db1) \<Rightarrow>
          (case find (\<lambda>p. Poll_ID p = poll_id) (polls db1) of
             None \<Rightarrow> (Inl ErrNoRows, db1)
           | Some p \<Rightarrow> (Inr p, db1)))"

text \<open>\<open>SELECT ... FROM poll_options WHERE poll_id = $1 ORDER BY position ASC\<close>.\<close>

definition options_of :: "uuid \<Rightarrow> PollOption list \<Rightarrow> PollOption list" where
  "options_of poll_id os = sort_key Position (filter (\<lambda>p. PollOption_PollID p = poll_id) os)"

text \<open>\<open>SELECT option_id FROM votes WHERE poll_id = $1 AND voter_identifier = $2\<close>.\<close>

definition select_vote :: "uuid \<Rightarrow> string \<Rightarrow> DB \<Rightarrow> (error + uuid) \<times> DB" where
  "select_vote poll_id voter db =
     (case driver db of
        (Some e, db1) \<Rightarrow> (Inl e, db1)
      | (None, db1) \<Rightarrow>
          (case find (\<lambda>v. Vote_PollID v = poll_id \<and> VoterIdentifier v = voter) (votes db1) of
             None \<Rightarrow> (Inl ErrNoRows, db1)
           | Some v \<Rightarrow> (Inr (Vote_OptionID v), db1)))"

text \<open>
  The filter of both listing queries: \<open>$1 = false OR (is_active = true AND (expires_at IS
  NULL OR expires_at > NOW()))\<close>.
\<close>

definition listed :: "bool \<Rightarrow> timestamp \<Rightarrow> Poll \<Rightarrow> bool" where
  "listed activeOnly now p =
     (\<not> activeOnly \<or> (IsActive p \<and> (case ExpiresAt p of None \<Rightarrow> True | Some t \<Rightarrow> t > now)))"

text \<open>\<open>LIMIT $2 OFFSET $3\<close>; PostgreSQL refuses a negative count.\<close>

definition limit_offset :: "int \<Rightarrow> int \<Rightarrow> 'a list \<Rightarrow> error + 'a list" where
  "limit_offset limit offset rows =
     (if limit < 0 \<or> offset < 0 then Inl InvalidRowCount
      else Inr (take (nat limit) (drop (nat offset) rows)))"

section \<open>The repository (poll\_repository.go)\<close>

text \<open>
  The loop of \<open>CreatePoll\<close> over \<open>options\<close>: it sets the poll id and the position of
  \<open>options[i]\<close>, inserts the row and scans the generated columns into \<open>options[i]\<close>; it
  stops at the first failure and leaves the rest of the slice as it was.
\<close>

fun insert_options :: "uuid \<Rightarrow> nat \<Rightarrow> PollOption list \<Rightarrow> DB \<Rightarrow> (PollOption list \<times> error option) \<times> DB" where
  "insert_options poll_id i [] db = (([], None), db)"
| "insert_options poll_id i (opt # rest) db =
     (let opt1 = opt\<lparr>PollOption_PollID := poll_id, Position := int i\<rparr> in
      case insert_option opt1 db of
        (Inl err, db1) \<Rightarrow> ((opt1 # rest, Some (Wrapf ''failed to insert option'' err)), db1)
      | (Inr (new_id, created_at, vote_count), db1) \<Rightarrow>
          (case insert_options poll_id (i + 1) rest db1 of
             ((rest1, err), db2) \<Rightarrow>
               ((opt1\<lparr>PollOption_ID := new_id, PollOption_CreatedAt := created_at,
                      VoteCount := vote_count\<rparr> # rest1, err), db2)))"

definition PollRepository_CreatePoll ::
  "Poll \<Rightarrow> PollOption list \<Rightarrow> DB \<Rightarrow> (Poll \<times> PollOption list \<times> error option) \<times> DB" where
  "PollRepository_CreatePoll poll options db =
     (case driver db of
        (Some err, db1) \<Rightarrow> ((poll, options, Some (Wrapf ''failed to begin transaction'' err)), db1)
      | (None, db1) \<Rightarrow>
          (case insert_poll poll db1 of
             (Inl err, db2) \<Rightarrow>
               ((poll, options, Some (Wrapf ''failed to insert poll'' err)), Rollback db1 db2)
           | (Inr (new_id, created_at, total_votes), db2) \<Rightarrow>
               (let poll1 = poll\<lparr>Poll_ID := new_id, Poll_CreatedAt := created_at,
                                 TotalVotes := total_votes\<rparr> in
                case insert_options new_id 0 options db2 of
                  ((options1, Some err), db3) \<Rightarrow> ((poll1, options1, Some err), Rollback db1 db3)
                | ((options1, None), db3) \<Rightarrow>
                    (case driver db3 of
                       (Some err, db4) \<Rightarrow> ((poll1, options1, Some err), Rollback db1 db4)
                     | (None, db4) \<Rightarrow> ((poll1, options1, None), db4)))))"

definition PollRepository_GetPollByID :: "uuid \<Rightarrow> DB \<Rightarrow> (Poll option \<times> error option) \<times> DB" where
  "PollRepository_GetPollByID poll_id db =
     (case select_poll poll_id db of
        (Inl err, db1) \<Rightarrow>
          if err = ErrNoRows then ((None, None), db1)
          else ((None, Some (Wrapf ''failed to get poll'' err)), db1)
      | (Inr poll, db1) \<Rightarrow> ((Some poll, None), db1))"

text \<open>
  \<open>GetPollOptions\<close> makes two round trips that can fail: the query, and the reading of
  the rows, whose failure \<open>rows.Err()\<close> reports. \<open>rows.Scan\<close> reads typed columns that
  hold no \<open>NULL\<close> and does not fail.
\<close>

definition PollRepository_GetPollOptions :: "uuid \<Rightarrow> DB \<Rightarrow> (PollOption list \<times> error option) \<times> DB" where
  "PollRepository_GetPollOptions pollID db =
     (case driver db of
        (Some err, db1) \<Rightarrow> (([], Some (Wrapf ''failed to query options'' err)), db1)
      | (None, db1) \<Rightarrow>
          (case driver db1 of
             (rows_err, db2) \<Rightarrow> ((options_of pollID (poll_options db2), rows_err), db2)))"

definition PollRepository_ListPolls :: "int \<Rightarrow> int \<Rightarrow> bool \<Rightarrow> DB \<Rightarrow> (Poll list \<times> error option) \<times> DB" where
  "PollRepository_ListPolls limit offset activeOnly db =
     (case driver db of
        (Some err, db1) \<Rightarrow> (([], Some (Wrapf ''failed to query polls'' err)), db1)
      | (None, db1) \<Rightarrow>
          (case limit_offset limit offset
                  (sort_key (\<lambda>p. - Poll_CreatedAt p) (filter (listed activeOnly (clock db1)) (polls db1))) of
             Inl err \<Rightarrow> (([], Some (Wrapf ''failed to query polls'' err)), db1)
           | Inr rows \<Rightarrow>
               (case driver db1 of (rows_err, db2) \<Rightarrow> ((rows, rows_err), db2))))"

text \<open>
  The rows of \<open>polls p LEFT JOIN poll_options po ON p.id = po.poll_id\<close>: a poll without
  options gives one row whose option columns are \<open>NULL\<close>. They are ordered by
  \<open>p.created_at DESC, po.position ASC\<close> (a \<open>NULL\<close> position last).
\<close>

definition left_join :: "Poll list \<Rightarrow> PollOption list \<Rightarrow> (Poll \<times> PollOption option) list" where
  "left_join ps os =
     concat (map (\<lambda>p. case filter (\<lambda>po. PollOption_PollID po = Poll_ID p) os of
                         [] \<Rightarrow> [(p, None)]
                       | pos \<Rightarrow> map (\<lambda>po. (p, Some po)) pos) ps)"

definition order_joined :: "(Poll \<times> PollOption option) list \<Rightarrow> (Poll \<times> PollOption option) list" where
  "order_joined rows =
     sort_key (\<lambda>(p, po). - Poll_CreatedAt p)
       (sort_key (\<lambda>(p, po). po = None)
          (sort_key (\<lambda>(p, po). case po of None \<Rightarrow> 0 | Some x \<Rightarrow> Position x) rows))"

text \<open>
  The loop over the joined rows, with the map \<open>pollsMap\<close> and the slice \<open>pollIDs\<close> that
  keeps the order of first appearance.
\<close>

fun group_rows ::
  "(Poll \<times> PollOption option) list \<Rightarrow> (uuid \<rightharpoonup> PollWithOptions) \<Rightarrow> uuid list \<Rightarrow>
   (uuid \<rightharpoonup> PollWithOptions) \<times> uuid list" where
  "group_rows [] pollsMap pollIDs = (pollsMap, pollIDs)"
| "group_rows ((poll, option) # rows) pollsMap pollIDs =
     (let (pollsMap1, pollIDs1) =
            (case pollsMap (Poll_ID poll) of
               None \<Rightarrow>
                 (pollsMap(Poll_ID poll \<mapsto>
                    \<lparr>PollWithOptions_Poll = poll, PollWithOptions_Options = []\<rparr>),
                  pollIDs @ [Poll_ID poll])
             | Some entry \<Rightarrow> (pollsMap, pollIDs));
          pollsMap2 =
            (case option of
               None \<Rightarrow> pollsMap1
             | Some opt \<Rightarrow>
                 (case pollsMap1 (Poll_ID poll) of
                    None \<Rightarrow> pollsMap1
                  | Some entry \<Rightarrow>
                      pollsMap1(Poll_ID poll \<mapsto>
                        entry\<lparr>PollWithOptions_Options := PollWithOptions_Options entry @ [opt]\<rparr>)))
      in group_rows rows pollsMap2 pollIDs1)"

definition PollRepository_ListPollsWithOptions ::
  "int \<Rightarrow> int \<Rightarrow> bool \<Rightarrow> DB \<Rightarrow> (PollWithOptions list \<times> error option) \<times> DB" where
  "PollRepository_ListPollsWithOptions limit offset activeOnly db =
     (case driver db of
        (Some err, db1) \<Rightarrow> (([], Some (Wrapf ''failed to query polls with options'' err)), db1)
      | (None, db1) \<Rightarrow>
          (case limit_offset limit offset
                  (order_joined (left_join (filter (listed activeOnly (clock db1)) (polls db1))
                                           (poll_options db1))) of
             Inl err \<Rightarrow> (([], Some (Wrapf ''failed to query polls with options'' err)), db1)
           | Inr rows \<Rightarrow>
               (case driver db1 of
                  (Some err, db2) \<Rightarrow> (([], Some err), db2)
                | (None, db2) \<Rightarrow>
                    (case group_rows rows Map.empty [] of
                       (pollsMap, pollIDs) \<Rightarrow> ((List.map_filter pollsMap pollIDs, None), db2)))))"

definition PollRepository_CastVote :: "Vote \<Rightarrow> DB \<Rightarrow> (Vote \<times> error option) \<times> DB" where
  "PollRepository_CastVote vote db =
     (case driver db of
        (Some err, db1) \<Rightarrow> ((vote, Some (Wrapf ''failed to begin transaction'' err)), db1)
      | (None, db1) \<Rightarrow>
          (case insert_vote vote db1 of
             (Inl err, db2) \<Rightarrow> ((vote, Some (Wrapf ''failed to cast vote'' err)), Rollback db1 db2)
           | (Inr (new_id, voted_at), db2) \<Rightarrow>
               (let vote1 = vote\<lparr>Vote_ID := new_id, VotedAt := voted_at\<rparr> in
                case update_vote_count (Vote_OptionID vote1) db2 of
                  (Some err, db3) \<Rightarrow>
                    ((vote1, Some (Wrapf ''failed to update vote count'' err)), Rollback db1 db3)
                | (None, db3) \<Rightarrow>
                    (case driver db3 of
                       (Some err, db4) \<Rightarrow> ((vote1, Some err), Rollback db1 db4)
                     | (None, db4) \<Rightarrow> ((vote1, None), db4)))))"

definition PollRepository_HasVoted :: "uuid \<Rightarrow> string \<Rightarrow> DB \<Rightarrow> (bool \<times> uuid option \<times> error option) \<times> DB" where
  "PollRepository_HasVoted pollID voterIdentifier db =
     (case select_vote pollID voterIdentifier db of
        (Inl err, db1) \<Rightarrow>
          if err = ErrNoRows then ((False, None, None), db1)
          else ((False, None, Some (Wrapf ''failed to check vote'' err)), db1)
      | (Inr optionID, db1) \<Rightarrow> ((True, Some optionID, None), db1))"

text \<open>
  \<open>result.RowsAffected()\<close> of the PostgreSQL driver returns the count it was given with
  the command tag and no error.
\<close>

definition RowsAffected :: "nat \<Rightarrow> int \<times> error option" where
  "RowsAffected n = (int n, None)"

definition PollRepository_DeletePoll :: "uuid \<Rightarrow> DB \<Rightarrow> error option \<times> DB" where
  "PollRepository_DeletePoll poll_id db =
     (case driver db of
        (Some err, db1) \<Rightarrow> (Some (Wrapf ''failed to delete poll'' err), db1)
      | (None, db1) \<Rightarrow>
          (let db2 = db1\<lparr>polls := map (\<lambda>p. if Poll_ID p = poll_id then p\<lparr>IsActive := False\<rparr> else p)
                                      (polls db1)\<rparr>
           in case RowsAffected (length (filter (\<lambda>p. Poll_ID p = poll_id) (polls db1))) of
                (rows, Some err) \<Rightarrow> (Some (Wrapf ''failed to get rows affected'' err), db2)
              | (rows, None) \<Rightarrow>
                  if rows = 0 then (Some (Errorf ''poll not found''), db2) else (None, db2)))"

definition PollRepository_GetTotalPollsCount :: "bool \<Rightarrow> DB \<Rightarrow> (int \<times> error option) \<times> DB" where
  "PollRepository_GetTotalPollsCount activeOnly db =
     (case driver db of
        (Some err, db1) \<Rightarrow> ((0, Some (Wrapf ''failed to count polls'' err)), db1)
      | (None, db1) \<Rightarrow> ((int (length (filter (listed activeOnly (clock db1)) (polls db1))), None), db1))"

definition PollRepository :: "DB PollRepositoryInterface" where
  "PollRepository =
     \<lparr>repo_CreatePoll = PollRepository_CreatePoll,
      repo_GetPollByID = PollRepository_GetPollByID,
      repo_GetPollOptions = PollRepository_GetPollOptions,
      repo_ListPolls = PollRepository_ListPolls,
      repo_ListPollsWithOptions = PollRepository_ListPollsWithOptions,
      repo_CastVote = PollRepository_CastVote,
      repo_HasVoted = PollRepository_HasVoted,
      repo_DeletePoll = PollRepository_DeletePoll,
      repo_GetTotalPollsCount = PollRepository_GetTotalPollsCount\<rparr>"

section \<open>The recording repository of the tests (package mocks)\<close>

text \<open>
  \<open>MockPollRepository\<close> records every call with its arguments (\<open>m.Called\<close>) and returns
  what the test programmed; here the programmed behaviour is any repository \<open>r\<close>, and the
  record \<open>Calls\<close> is the second component of the state. The method
  \<open>ListPollsWithOptions\<close> of the interface is recorded like the others.
\<close>

datatype call =
    Call_CreatePoll Poll "PollOption list"
  | Call_GetPollByID uuid
  | Call_GetPollOptions uuid
  | Call_ListPolls int int bool
  | Call_ListPollsWithOptions int int bool
  | Call_CastVote Vote
  | Call_HasVoted uuid string
  | Call_DeletePoll uuid
  | Call_GetTotalPollsCount bool

definition Called :: "call \<Rightarrow> ('s \<Rightarrow> 'a \<times> 's) \<Rightarrow> 's \<times> call list \<Rightarrow> 'a \<times> ('s \<times> call list)" where
  "Called c m = (\<lambda>(s, calls). case m s of (a, s') \<Rightarrow> (a, (s', calls @ [c])))"

definition MockPollRepository :: "'s PollRepositoryInterface \<Rightarrow> ('s \<times> call list) PollRepositoryInterface" where
  "MockPollRepository r =
     \<lparr>repo_CreatePoll = (\<lambda>poll options. Called (Call_CreatePoll poll options) (repo_CreatePoll r poll options)),
      repo_GetPollByID = (\<lambda>id. Called (Call_GetPollByID id) (repo_GetPollByID r id)),
      repo_GetPollOptions = (\<lambda>pollID. Called (Call_GetPollOptions pollID) (repo_GetPollOptions r pollID)),
      repo_ListPolls = (\<lambda>limit offset activeOnly.
         Called (Call_ListPolls limit offset activeOnly) (repo_ListPolls r limit offset activeOnly)),
      repo_ListPollsWithOptions = (\<lambda>limit offset activeOnly.
         Called (Call_ListPollsWithOptions limit offset activeOnly)
                (repo_ListPollsWithOptions r limit offset activeOnly)),
      repo_CastVote = (\<lambda>vote. Called (Call_CastVote vote) (repo_CastVote r vote)),
      repo_HasVoted = (\<lambda>pollID voterIdentifier.
         Called (Call_HasVoted pollID voterIdentifier) (repo_HasVoted r pollID voterIdentifier)),
      repo_DeletePoll = (\<lambda>id. Called (Call_DeletePoll id) (repo_DeletePoll r id)),
      repo_GetTotalPollsCount = (\<lambda>activeOnly.
         Called (Call_GetTotalPollsCount activeOnly) (repo_GetTotalPollsCount r activeOnly))\<rparr>"

section \<open>Requests served at the same time\<close>

text \<open>
  Every request runs on its own goroutine against the one database, and a service
  function is several repository calls, not one transaction: between two of its calls
  the transactions of other requests commit. \<open>Concurrent r\<close> is the repository \<open>r\<close> as one
  request sees it then: the second component of the state lists, for each coming call,
  what the other requests have committed since the call before.
\<close>

definition after_others :: "('s \<Rightarrow> 'a \<times> 's) \<Rightarrow> 's \<times> ('s \<Rightarrow> 's) list \<Rightarrow> 'a \<times> ('s \<times> ('s \<Rightarrow> 's) list)" where
  "after_others m =
     (\<lambda>(s, others). case others of
        [] \<Rightarrow> (case m s of (a, s') \<Rightarrow> (a, (s', [])))
      | other # rest \<Rightarrow> (case m (other s) of (a, s') \<Rightarrow> (a, (s', rest))))"

definition Concurrent :: "'s PollRepositoryInterface \<Rightarrow> ('s \<times> ('s \<Rightarrow> 's) list) PollRepositoryInterface" where
  "Concurrent r =
     \<lparr>repo_CreatePoll = (\<lambda>poll options. after_others (repo_CreatePoll r poll options)),
      repo_GetPollByID = (\<lambda>id. after_others (repo_GetPollByID r id)),
      repo_GetPollOptions = (\<lambda>pollID. after_others (repo_GetPollOptions r pollID)),
      repo_ListPolls = (\<lambda>limit offset activeOnly. after_others (repo_ListPolls r limit offset activeOnly)),
      repo_ListPollsWithOptions = (\<lambda>limit offset activeOnly.
         after_others (repo_ListPollsWithOptions r limit offset activeOnly)),
      repo_CastVote = (\<lambda>vote. after_others (repo_CastVote r vote)),
      repo_HasVoted = (\<lambda>pollID voterIdentifier. after_others (repo_HasVoted r pollID voterIdentifier)),
      repo_DeletePoll = (\<lambda>id. after_others (repo_DeletePoll r id)),
      repo_GetTotalPollsCount = (\<lambda>activeOnly. after_others (repo_GetTotalPollsCount r activeOnly))\<rparr>"

section \<open>The error names of the specification\<close>

text \<open>
  The service has no error types: an error is its message. The names the specification
  uses stand for the messages the service returns. \<open>NotFoundError\<close> is the one of
  \<open>CastVote\<close> and \<open>GetPollResults\<close>; \<open>DeletePoll\<close> returns the repository's
  \<open>poll not found\<close> wrapped, \<open>DeleteNotFoundError\<close>.
\<close>

definition NotFoundError :: error where
  "NotFoundError = Errorf ''poll not found''"

definition InactiveError :: error where
  "InactiveError = Errorf ''poll is not active''"

definition ExpiredError :: error where
  "ExpiredError = Errorf ''poll has expired''"

definition DuplicateVoteError :: error where
  "DuplicateVoteError = Errorf ''you have already voted on this poll''"

definition InvalidOptionError :: error where
  "InvalidOptionError = Errorf ''invalid option for this poll''"

definition DeleteNotFoundError :: error where
  "DeleteNotFoundError = Wrapf ''failed to delete poll'' (Errorf ''poll not found'')"

fun ValidationError :: "error \<Rightarrow> bool" where
  "ValidationError (Errorf m) =
     (m = ''question must be between 5 and 500 characters'' \<or>
      m = ''poll must have at least 2 options'' \<or>
      m = ''poll can have at most 10 options'' \<or>
      m = ''expiration date must be in the future'')"
| "ValidationError (Errorf_d m n) = (m = ''option %d must be between 1 and 200 characters'')"
| "ValidationError e = False"

section \<open>States of the store\<close>

text \<open>The database after the schema script has run: three empty tables.\<close>

definition empty_DB :: DB where
  "empty_DB = \<lparr>polls = [], poll_options = [], votes = [], next_uuid = 1, clock = 0, faults = []\<rparr>"

text \<open>The rows of the three tables, which is all a later request can observe.\<close>

definition tables :: "DB \<Rightarrow> Poll list \<times> PollOption list \<times> Vote list" where
  "tables db = (polls db, poll_options db, votes db)"

text \<open>
  The counters of one poll agree when the vote counts of its options add up to its
  total; \<open>counters_consistent\<close> says so of every poll of the table.
\<close>

definition option_votes :: "uuid \<Rightarrow> PollOption list \<Rightarrow> int" where
  "option_votes poll_id os = sum_list (map VoteCount (options_of poll_id os))"

definition counters_consistent :: "DB \<Rightarrow> bool" where
  "counters_consistent db =
     list_all (\<lambda>p. option_votes (Poll_ID p) (poll_options db) = TotalVotes p) (polls db)"

text \<open>
  What the primary key of \<open>poll_options\<close> and its foreign key into \<open>polls\<close> keep true of
  the rows.
\<close>

definition keys_consistent :: "DB \<Rightarrow> bool" where
  "keys_consistent db =
     (distinct (map PollOption_ID (poll_options db)) \<and>
      list_all (\<lambda>po. list_ex (\<lambda>p. Poll_ID p = PollOption_PollID po) (polls db)) (poll_options db))"

text \<open>
  The databases the service can bring about: it starts on empty tables, and every step
  is one call of a service function on the repository, with any arguments and any
  outcome, or a change of the clock and of what the connection will do.
\<close>

inductive reachable :: "DB \<Rightarrow> bool" where
  fresh: "polls db = [] \<Longrightarrow> poll_options db = [] \<Longrightarrow> votes db = [] \<Longrightarrow> reachable db"
| environment: "reachable db \<Longrightarrow> reachable (db\<lparr>clock := c, faults := fs\<rparr>)"
| create: "reachable db \<Longrightarrow> reachable (snd (CreatePoll PollRepository now req db))"
| vote: "reachable db \<Longrightarrow> reachable (snd (CastVote PollRepository now pollID optionID voter db))"
| delete: "reachable db \<Longrightarrow> reachable (snd (DeletePoll PollRepository pollID db))"
| results: "reachable db \<Longrightarrow> reachable (snd (GetPollResults fl PollRepository pollID voter db))"
| list: "reachable db \<Longrightarrow> reachable (snd (ListPolls PollRepository limit offset activeOnly db))"

text \<open>
  The example of the specification: the poll \<open>Best color?\<close> with the options \<open>Red\<close> and
  \<open>Blue\<close>, created on the empty database at time \<open>0\<close>. The poll gets the id \<open>1\<close> and
  its options the ids \<open>2\<close> and \<open>3\<close>.
\<close>

definition best_color :: CreatePollRequest where
  "best_color = \<lparr>Request_Question = ''Best color?'', Request_Description = None,
                  Request_ExpiresAt = None, Request_Options = [''Red'', ''Blue'']\<rparr>"

definition best_color_poll :: Poll where
  "best_color_poll =
     \<lparr>Poll_ID = 1, Question = ''Best color?'', Description = None, Poll_CreatedAt = 0,
      ExpiresAt = None, IsActive = True, TotalVotes = 0\<rparr>"

definition red_option :: PollOption where
  "red_option =
     \<lparr>PollOption_ID = 2, PollOption_PollID = 1, OptionText = ''Red'', VoteCount = 0,
      Position = 0, PollOption_CreatedAt = 0\<rparr>"

definition blue_option :: PollOption where
  "blue_option =
     \<lparr>PollOption_ID = 3, PollOption_PollID = 1, OptionText = ''Blue'', VoteCount = 0,
      Position = 1, PollOption_CreatedAt = 0\<rparr>"

definition best_color_DB :: DB where
  "best_color_DB =
     \<lparr>polls = [best_color_poll], poll_options = [red_option, blue_option], votes = [],
      next_uuid = 4, clock = 0, faults = []\<rparr>"

text \<open>The same database after the voter \<open>v1\<close> has voted \<open>Red\<close>.\<close>

definition best_color_voted_DB :: DB where
  "best_color_voted_DB =
     \<lparr>polls = [best_color_poll\<lparr>TotalVotes := 1\<rparr>],
      poll_options = [red_option\<lparr>VoteCount := 1\<rparr>, blue_option],
      votes = [\<lparr>Vote_ID = 4, Vote_PollID = 1, Vote_OptionID = 2, VoterIdentifier = ''v1'',
                VotedAt = 0\<rparr>],
      next_uuid = 5, clock = 0, faults = []\<rparr>"

text \<open>The example database after \<open>DeletePoll\<close>, and with a poll that expires at time \<open>5\<close>.\<close>

definition best_color_deleted_DB :: DB where
  "best_color_deleted_DB = best_color_DB\<lparr>polls := [best_color_poll\<lparr>IsActive := False\<rparr>]\<rparr>"

definition best_color_expiring_DB :: DB where
  "best_color_expiring_DB = best_color_DB\<lparr>polls := [best_color_poll\<lparr>ExpiresAt := Some 5\<rparr>]\<rparr>"

section \<open>Unfolding the model\<close>

lemmas mock_defs = MockPollRepository_def Called_def

lemmas repo_defs = PollRepository_def PollRepository_CreatePoll_def PollRepository_GetPollByID_def
  PollRepository_GetPollOptions_def PollRepository_ListPolls_def PollRepository_ListPollsWithOptions_def
  PollRepository_CastVote_def PollRepository_HasVoted_def PollRepository_DeletePoll_def
  PollRepository_GetTotalPollsCount_def

lemmas sql_defs = driver_def Rollback_def insert_poll_def insert_option_def insert_vote_def
  update_poll_total_votes_def update_vote_count_def select_poll_def select_vote_def options_of_def
  listed_def limit_offset_def char_length_def continuation_byte_def varchar_255_def bigint_max_def
  left_join_def order_joined_def RowsAffected_def

lemmas example_defs = empty_DB_def best_color_def best_color_DB_def best_color_poll_def red_option_def
  blue_option_def best_color_voted_DB_def best_color_deleted_DB_def best_color_expiring_DB_def

lemmas error_defs = NotFoundError_def InactiveError_def ExpiredError_def DuplicateVoteError_def
  InvalidOptionError_def DeleteNotFoundError_def

lemma PollRepository_sel [simp]:
  "repo_CreatePoll PollRepository = PollRepository_CreatePoll"
  "repo_GetPollByID PollRepository = PollRepository_GetPollByID"
  "repo_GetPollOptions PollRepository = PollRepository_GetPollOptions"
  "repo_ListPolls PollRepository = PollRepository_ListPolls"
  "repo_ListPollsWithOptions PollRepository = PollRepository_ListPollsWithOptions"
  "repo_CastVote PollRepository = PollRepository_CastVote"
  "repo_HasVoted PollRepository = PollRepository_HasVoted"
  "repo_DeletePoll PollRepository = PollRepository_DeletePoll"
  "repo_GetTotalPollsCount PollRepository = PollRepository_GetTotalPollsCount"
  by (simp_all add: PollRepository_def)

lemma Mock_GetPollByID [simp]:
  "repo_GetPollByID (MockPollRepository r) poll_id (s, calls) =
     (case repo_GetPollByID r poll_id s of (a, s') \<Rightarrow> (a, (s', calls @ [Call_GetPollByID poll_id])))"
  by (simp add: mock_defs)

lemma Mock_HasVoted [simp]:
  "repo_HasVoted (MockPollRepository r) poll_id voter (s, calls) =
     (case repo_HasVoted r poll_id voter s of (a, s') \<Rightarrow> (a, (s', calls @ [Call_HasVoted poll_id voter])))"
  by (simp add: mock_defs)

lemma Mock_GetPollOptions [simp]:
  "repo_GetPollOptions (MockPollRepository r) poll_id (s, calls) =
     (case repo_GetPollOptions r poll_id s of (a, s') \<Rightarrow> (a, (s', calls @ [Call_GetPollOptions poll_id])))"
  by (simp add: mock_defs)

lemma Mock_CastVote [simp]:
  "repo_CastVote (MockPollRepository r) vote (s, calls) =
     (case repo_CastVote r vote s of (a, s') \<Rightarrow> (a, (s', calls @ [Call_CastVote vote])))"
  by (simp add: mock_defs)

lemma Mock_CreatePoll [simp]:
  "repo_CreatePoll (MockPollRepository r) poll options (s, calls) =
     (case repo_CreatePoll r poll options s of (a, s') \<Rightarrow> (a, (s', calls @ [Call_CreatePoll poll options])))"
  by (simp add: mock_defs)

text \<open>Creating the example poll on the empty database gives \<open>best_color_DB\<close>.\<close>

lemma best_color_created:
  "CreatePoll PollRepository 0 best_color empty_DB =
     (Inr \<lparr>PollWithOptions_Poll = hd (polls best_color_DB),
           PollWithOptions_Options = poll_options best_color_DB\<rparr>, best_color_DB)"
  by (simp add: CreatePoll_def repo_defs sql_defs example_defs set_and_before_def Let_def)

text \<open>The repository on the example databases.\<close>

lemma get_best_color:
  "PollRepository_GetPollByID 1 best_color_DB = ((Some best_color_poll, None), best_color_DB)"
  "PollRepository_GetPollByID 9 best_color_DB = ((None, None), best_color_DB)"
  by (simp_all add: PollRepository_GetPollByID_def select_poll_def driver_def best_color_DB_def
      best_color_poll_def)

lemma has_voted_best_color:
  "PollRepository_HasVoted 1 ''v1'' best_color_DB = ((False, None, None), best_color_DB)"
  by (simp add: PollRepository_HasVoted_def select_vote_def driver_def best_color_DB_def)

lemma options_best_color:
  "PollRepository_GetPollOptions 1 best_color_DB = (([red_option, blue_option], None), best_color_DB)"
  by (simp add: PollRepository_GetPollOptions_def options_of_def driver_def best_color_DB_def
      red_option_def blue_option_def)

lemma cast_best_color:
  "PollRepository_CastVote (new_vote 1 2 ''v1'') best_color_DB =
     (((new_vote 1 2 ''v1'')\<lparr>Vote_ID := 4, VotedAt := 0\<rparr>, None), best_color_voted_DB)"
  by (simp add: PollRepository_CastVote_def new_vote_def sql_defs example_defs Let_def)


lemma get_best_color_deleted:
  "PollRepository_GetPollByID 1 best_color_deleted_DB =
     ((Some (best_color_poll\<lparr>IsActive := False\<rparr>), None), best_color_deleted_DB)"
  by (simp add: PollRepository_GetPollByID_def select_poll_def driver_def best_color_DB_def
      best_color_deleted_DB_def best_color_poll_def)

lemma get_best_color_expiring:
  "PollRepository_GetPollByID 1 best_color_expiring_DB =
     ((Some (best_color_poll\<lparr>ExpiresAt := Some 5\<rparr>), None), best_color_expiring_DB)"
  by (simp add: PollRepository_GetPollByID_def select_poll_def driver_def best_color_DB_def
      best_color_expiring_DB_def best_color_poll_def)

lemma get_best_color_voted:
  "PollRepository_GetPollByID 1 best_color_voted_DB =
     ((Some (best_color_poll\<lparr>TotalVotes := 1\<rparr>), None), best_color_voted_DB)"
  by (simp add: PollRepository_GetPollByID_def select_poll_def driver_def best_color_voted_DB_def
      best_color_poll_def)

lemma has_voted_best_color_voted:
  "PollRepository_HasVoted 1 ''v1'' best_color_voted_DB = ((True, Some 2, None), best_color_voted_DB)"
  by (simp add: PollRepository_HasVoted_def select_vote_def driver_def best_color_voted_DB_def)

lemma best_color_poll_fields [simp]:
  "IsActive best_color_poll" "ExpiresAt best_color_poll = None" "TotalVotes best_color_poll = 0"
  "Poll_ID best_color_poll = 1"
  by (simp_all add: best_color_poll_def)

lemma best_color_option_ids [simp]:
  "PollOption_ID red_option = 2" "PollOption_ID blue_option = 3"
  by (simp_all add: red_option_def blue_option_def)

section \<open>ListPolls: the limit and the offset the repository receives\<close>

text \<open>
  C8, as amended. Whatever the repository, the first call \<open>ListPolls\<close> makes is
  \<open>ListPollsWithOptions\<close>, with the limit replaced by 20 when it is at most 0 or above
  100 and passed unchanged when it is between 1 and 100, and with a negative offset
  replaced by 0; the count query follows when the listing succeeded. The calls are read
  off the recording repository.
\<close>

theorem ListPolls_limit_offset_passed:
  "snd (snd (ListPolls (MockPollRepository r) limit offset activeOnly (s, calls))) =
     calls @
     Call_ListPollsWithOptions (if limit \<le> 0 \<or> limit > 100 then 20 else limit)
                               (if offset < 0 then 0 else offset) activeOnly #
     (if snd (fst (repo_ListPollsWithOptions r (if limit \<le> 0 \<or> limit > 100 then 20 else limit)
                      (if offset < 0 then 0 else offset) activeOnly s)) = None
      then [Call_GetTotalPollsCount activeOnly] else [])"
proof -
  define L :: int where "L = (if limit \<le> 0 \<or> limit > 100 then 20 else limit)"
  define F :: int where "F = (if offset < 0 then 0 else offset)"
  obtain ps e s1 where A: "repo_ListPollsWithOptions r L F activeOnly s = ((ps, e), s1)"
    by (metis surj_pair)
  obtain c e2 s2 where B: "repo_GetTotalPollsCount r activeOnly s1 = ((c, e2), s2)"
    by (metis surj_pair)
  have "snd (snd (ListPolls (MockPollRepository r) limit offset activeOnly (s, calls))) =
     calls @ Call_ListPollsWithOptions L F activeOnly #
     (if snd (fst (repo_ListPollsWithOptions r L F activeOnly s)) = None
      then [Call_GetTotalPollsCount activeOnly] else [])"
    unfolding ListPolls_def Let_def L_def [symmetric] F_def [symmetric]
    using A B by (cases e; cases e2) (simp_all add: mock_defs)
  then show ?thesis by (simp only: L_def F_def)
qed

theorem ListPolls_limit_offset_passed_witness:
  "snd (snd (ListPolls (MockPollRepository PollRepository) 0 (-3) True (empty_DB, []))) =
     [Call_ListPollsWithOptions 20 0 True, Call_GetTotalPollsCount True] \<and>
   snd (snd (ListPolls (MockPollRepository PollRepository) 50 7 False (empty_DB, []))) =
     [Call_ListPollsWithOptions 50 7 False, Call_GetTotalPollsCount False]"
  using ListPolls_limit_offset_passed [of PollRepository 0 "-3" True empty_DB "[]"]
    ListPolls_limit_offset_passed [of PollRepository 50 7 False empty_DB "[]"]
  by (simp add: repo_defs sql_defs example_defs)

text \<open>
  C8 as stated fails: the limit 10000 does not reach the repository, which is asked for
  20 rows.
\<close>

theorem ListPolls_oversized_limit_counterexample:
  "snd (snd (ListPolls (MockPollRepository PollRepository) 10000 0 True (empty_DB, []))) =
     [Call_ListPollsWithOptions 20 0 True, Call_GetTotalPollsCount True] \<and>
   snd (snd (ListPolls (MockPollRepository PollRepository) 10000 0 True (empty_DB, []))) \<noteq>
     [Call_ListPollsWithOptions 10000 0 True, Call_GetTotalPollsCount True]"
  by (simp add: ListPolls_def mock_defs repo_defs sql_defs example_defs)

section \<open>CastVote: the order of the checks\<close>

lemma list_ex_option_id:
  "list_ex (\<lambda>opt. PollOption_ID opt = optionID) options \<longleftrightarrow> optionID \<in> PollOption_ID ` set options"
  by (auto simp: list_ex_iff)

lemma CastVote_not_found:
  "repo_GetPollByID r pollID s = ((None, None), s1) \<Longrightarrow>
   CastVote (MockPollRepository r) now pollID optionID voter (s, calls) =
     (Some NotFoundError, s1, calls @ [Call_GetPollByID pollID])"
  by (simp add: CastVote_def NotFoundError_def)

lemma CastVote_inactive:
  "repo_GetPollByID r pollID s = ((Some poll, None), s1) \<Longrightarrow> \<not> IsActive poll \<Longrightarrow>
   CastVote (MockPollRepository r) now pollID optionID voter (s, calls) =
     (Some InactiveError, s1, calls @ [Call_GetPollByID pollID])"
  by (simp add: CastVote_def InactiveError_def)

lemma CastVote_expired:
  "repo_GetPollByID r pollID s = ((Some poll, None), s1) \<Longrightarrow> IsActive poll \<Longrightarrow>
   set_and_before (ExpiresAt poll) now \<Longrightarrow>
   CastVote (MockPollRepository r) now pollID optionID voter (s, calls) =
     (Some ExpiredError, s1, calls @ [Call_GetPollByID pollID])"
  by (simp add: CastVote_def ExpiredError_def)

lemma CastVote_duplicate:
  "repo_GetPollByID r pollID s = ((Some poll, None), s1) \<Longrightarrow> IsActive poll \<Longrightarrow>
   \<not> set_and_before (ExpiresAt poll) now \<Longrightarrow>
   repo_HasVoted r pollID voter s1 = ((True, vo, None), s2) \<Longrightarrow>
   CastVote (MockPollRepository r) now pollID optionID voter (s, calls) =
     (Some DuplicateVoteError, s2, calls @ [Call_GetPollByID pollID, Call_HasVoted pollID voter])"
  by (simp add: CastVote_def DuplicateVoteError_def)

lemma CastVote_invalid_option:
  "repo_GetPollByID r pollID s = ((Some poll, None), s1) \<Longrightarrow> IsActive poll \<Longrightarrow>
   \<not> set_and_before (ExpiresAt poll) now \<Longrightarrow>
   repo_HasVoted r pollID voter s1 = ((False, vo, None), s2) \<Longrightarrow>
   repo_GetPollOptions r pollID s2 = ((options, None), s3) \<Longrightarrow>
   optionID \<notin> PollOption_ID ` set options \<Longrightarrow>
   CastVote (MockPollRepository r) now pollID optionID voter (s, calls) =
     (Some InvalidOptionError, s3,
      calls @ [Call_GetPollByID pollID, Call_HasVoted pollID voter, Call_GetPollOptions pollID])"
  by (simp add: CastVote_def InvalidOptionError_def list_ex_option_id)

lemma CastVote_inserts:
  "repo_GetPollByID r pollID s = ((Some poll, None), s1) \<Longrightarrow> IsActive poll \<Longrightarrow>
   \<not> set_and_before (ExpiresAt poll) now \<Longrightarrow>
   repo_HasVoted r pollID voter s1 = ((False, vo, None), s2) \<Longrightarrow>
   repo_GetPollOptions r pollID s2 = ((options, None), s3) \<Longrightarrow>
   optionID \<in> PollOption_ID ` set options \<Longrightarrow>
   repo_CastVote r (new_vote pollID optionID voter) s3 = ((vote, err), s4) \<Longrightarrow>
   CastVote (MockPollRepository r) now pollID optionID voter (s, calls) =
     (map_option (Wrapf ''failed to cast vote'') err, s4,
      calls @ [Call_GetPollByID pollID, Call_HasVoted pollID voter, Call_GetPollOptions pollID,
               Call_CastVote (new_vote pollID optionID voter)])"
  by (cases err) (simp_all add: CastVote_def list_ex_option_id)

lemma CastVote_inserted_only_after_checks:
  assumes "Call_CastVote v \<in> set (snd (snd (CastVote (MockPollRepository r) now pollID optionID voter (s, []))))"
  shows "\<exists>poll s1 vo s2 options s3.
           repo_GetPollByID r pollID s = ((Some poll, None), s1) \<and> IsActive poll \<and>
           \<not> set_and_before (ExpiresAt poll) now \<and>
           repo_HasVoted r pollID voter s1 = ((False, vo, None), s2) \<and>
           repo_GetPollOptions r pollID s2 = ((options, None), s3) \<and>
           optionID \<in> PollOption_ID ` set options \<and> v = new_vote pollID optionID voter"
proof -
  obtain p e s1 where G: "repo_GetPollByID r pollID s = ((p, e), s1)" by (metis surj_pair)
  obtain hv vo eh s2 where H: "repo_HasVoted r pollID voter s1 = ((hv, vo, eh), s2)" by (metis surj_pair)
  obtain os eo s3 where O: "repo_GetPollOptions r pollID s2 = ((os, eo), s3)" by (metis surj_pair)
  obtain v' ec s4 where C: "repo_CastVote r (new_vote pollID optionID voter) s3 = ((v', ec), s4)"
    by (metis surj_pair)
  from assms G have e: "e = None" by (cases e; cases p) (simp_all add: CastVote_def)
  from assms G e obtain poll where p: "p = Some poll" by (cases p) (simp_all add: CastVote_def)
  from assms G e p have a: "IsActive poll" by (cases "IsActive poll") (simp_all add: CastVote_def)
  from assms G e p a have x: "\<not> set_and_before (ExpiresAt poll) now"
    by (cases "set_and_before (ExpiresAt poll) now") (simp_all add: CastVote_def)
  from assms G e p a x H have eh: "eh = None" by (cases eh; cases hv) (simp_all add: CastVote_def)
  from assms G e p a x H eh have hv: "\<not> hv" by (cases hv) (simp_all add: CastVote_def)
  from assms G e p a x H eh hv O have eo: "eo = None" by (cases eo) (simp_all add: CastVote_def)
  from assms G e p a x H eh hv O eo have m: "optionID \<in> PollOption_ID ` set os"
    by (cases "optionID \<in> PollOption_ID ` set os") (simp_all add: CastVote_def list_ex_option_id)
  from assms G e p a x H eh hv O eo m C have "v = new_vote pollID optionID voter"
    by (cases ec) (simp_all add: CastVote_def list_ex_option_id)
  with G e p a x H eh hv O eo m show ?thesis by auto
qed

text \<open>
  C3. On any repository, with the calls read off the recording repository: an absent poll
  gives \<open>NotFoundError\<close>, an inactive one \<open>InactiveError\<close>, an active one whose
  \<open>ExpiresAt\<close> is set and before \<open>now\<close> gives \<open>ExpiredError\<close>, and in all three cases
  \<open>GetPollByID\<close> is the only call made; then a voter who has voted gets
  \<open>DuplicateVoteError\<close> after the call of \<open>HasVoted\<close> and nothing later; then an option
  that is not among the poll's gets \<open>InvalidOptionError\<close> after \<open>GetPollOptions\<close> and
  nothing later; and only then is \<open>CastVote\<close> of the repository called, its error
  wrapped. Conversely the repository's \<open>CastVote\<close> is called only when all five checks
  have passed. (A check whose repository call fails returns that failure, wrapped.)
\<close>

theorem CastVote_check_order:
  "(repo_GetPollByID r pollID s = ((None, None), s1) \<longrightarrow>
      CastVote (MockPollRepository r) now pollID optionID voter (s, calls) =
        (Some NotFoundError, s1, calls @ [Call_GetPollByID pollID])) \<and>
   (repo_GetPollByID r pollID s = ((Some poll, None), s1) \<and> \<not> IsActive poll \<longrightarrow>
      CastVote (MockPollRepository r) now pollID optionID voter (s, calls) =
        (Some InactiveError, s1, calls @ [Call_GetPollByID pollID])) \<and>
   (repo_GetPollByID r pollID s = ((Some poll, None), s1) \<and> IsActive poll \<and>
    set_and_before (ExpiresAt poll) now \<longrightarrow>
      CastVote (MockPollRepository r) now pollID optionID voter (s, calls) =
        (Some ExpiredError, s1, calls @ [Call_GetPollByID pollID])) \<and>
   (repo_GetPollByID r pollID s = ((Some poll, None), s1) \<and> IsActive poll \<and>
    \<not> set_and_before (ExpiresAt poll) now \<and>
    repo_HasVoted r pollID voter s1 = ((True, vo, None), s2) \<longrightarrow>
      CastVote (MockPollRepository r) now pollID optionID voter (s, calls) =
        (Some DuplicateVoteError, s2, calls @ [Call_GetPollByID pollID, Call_HasVoted pollID voter])) \<and>
   (repo_GetPollByID r pollID s = ((Some poll, None), s1) \<and> IsActive poll \<and>
    \<not> set_and_before (ExpiresAt poll) now \<and>
    repo_HasVoted r pollID voter s1 = ((False, vo, None), s2) \<and>
    repo_GetPollOptions r pollID s2 = ((options, None), s3) \<and>
    optionID \<notin> PollOption_ID ` set options \<longrightarrow>
      CastVote (MockPollRepository r) now pollID optionID voter (s, calls) =
        (Some InvalidOptionError, s3,
         calls @ [Call_GetPollByID pollID, Call_HasVoted pollID voter, Call_GetPollOptions pollID])) \<and>
   (repo_GetPollByID r pollID s = ((Some poll, None), s1) \<and> IsActive poll \<and>
    \<not> set_and_before (ExpiresAt poll) now \<and>
    repo_HasVoted r pollID voter s1 = ((False, vo, None), s2) \<and>
    repo_GetPollOptions r pollID s2 = ((options, None), s3) \<and>
    optionID \<in> PollOption_ID ` set options \<and>
    repo_CastVote r (new_vote pollID optionID voter) s3 = ((vote, err), s4) \<longrightarrow>
      CastVote (MockPollRepository r) now pollID optionID voter (s, calls) =
        (map_option (Wrapf ''failed to cast vote'') err, s4,
         calls @ [Call_GetPollByID pollID, Call_HasVoted pollID voter, Call_GetPollOptions pollID,
                  Call_CastVote (new_vote pollID optionID voter)])) \<and>
   (Call_CastVote v \<in> set (snd (snd (CastVote (MockPollRepository r) now pollID optionID voter (s, [])))) \<longrightarrow>
      (\<exists>poll s1 vo s2 options s3.
          repo_GetPollByID r pollID s = ((Some poll, None), s1) \<and> IsActive poll \<and>
          \<not> set_and_before (ExpiresAt poll) now \<and>
          repo_HasVoted r pollID voter s1 = ((False, vo, None), s2) \<and>
          repo_GetPollOptions r pollID s2 = ((options, None), s3) \<and>
          optionID \<in> PollOption_ID ` set options \<and> v = new_vote pollID optionID voter))"
  using CastVote_not_found [of r pollID s s1 now optionID voter calls]
    CastVote_inactive [of r pollID s poll s1 now optionID voter calls]
    CastVote_expired [of r pollID s poll s1 now optionID voter calls]
    CastVote_duplicate [of r pollID s poll s1 now voter vo s2 optionID calls]
    CastVote_invalid_option [of r pollID s poll s1 now voter vo s2 options s3 optionID calls]
    CastVote_inserts [of r pollID s poll s1 now voter vo s2 options s3 optionID vote err s4 calls]
    CastVote_inserted_only_after_checks [of v r now pollID optionID voter s]
  by blast

theorem CastVote_check_order_witness:
  "CastVote (MockPollRepository PollRepository) 10 9 2 ''v1'' (best_color_DB, []) =
     (Some NotFoundError, best_color_DB, [Call_GetPollByID 9]) \<and>
   CastVote (MockPollRepository PollRepository) 10 1 2 ''v1'' (best_color_deleted_DB, []) =
     (Some InactiveError, best_color_deleted_DB, [Call_GetPollByID 1]) \<and>
   CastVote (MockPollRepository PollRepository) 10 1 2 ''v1'' (best_color_expiring_DB, []) =
     (Some ExpiredError, best_color_expiring_DB, [Call_GetPollByID 1]) \<and>
   CastVote (MockPollRepository PollRepository) 10 1 3 ''v1'' (best_color_voted_DB, []) =
     (Some DuplicateVoteError, best_color_voted_DB, [Call_GetPollByID 1, Call_HasVoted 1 ''v1'']) \<and>
   CastVote (MockPollRepository PollRepository) 10 1 7 ''v1'' (best_color_DB, []) =
     (Some InvalidOptionError, best_color_DB,
      [Call_GetPollByID 1, Call_HasVoted 1 ''v1'', Call_GetPollOptions 1]) \<and>
   CastVote (MockPollRepository PollRepository) 10 1 2 ''v1'' (best_color_DB, []) =
     (None, best_color_voted_DB,
      [Call_GetPollByID 1, Call_HasVoted 1 ''v1'', Call_GetPollOptions 1,
       Call_CastVote (new_vote 1 2 ''v1'')])"
proof -
  have p1: "repo_GetPollByID PollRepository 9 best_color_DB = ((None, None), best_color_DB)"
    by (simp del: One_nat_def add: get_best_color)
  have p2: "repo_GetPollByID PollRepository 1 best_color_deleted_DB =
      ((Some (best_color_poll\<lparr>IsActive := False\<rparr>), None), best_color_deleted_DB) \<and>
    \<not> IsActive (best_color_poll\<lparr>IsActive := False\<rparr>)"
    by (simp del: One_nat_def add: get_best_color_deleted)
  have p3: "repo_GetPollByID PollRepository 1 best_color_expiring_DB =
      ((Some (best_color_poll\<lparr>ExpiresAt := Some 5\<rparr>), None), best_color_expiring_DB) \<and>
    IsActive (best_color_poll\<lparr>ExpiresAt := Some 5\<rparr>) \<and>
    set_and_before (ExpiresAt (best_color_poll\<lparr>ExpiresAt := Some 5\<rparr>)) 10"
    by (simp del: One_nat_def add: get_best_color_expiring set_and_before_def)
  have p4: "repo_GetPollByID PollRepository 1 best_color_voted_DB =
      ((Some (best_color_poll\<lparr>TotalVotes := 1\<rparr>), None), best_color_voted_DB) \<and>
    IsActive (best_color_poll\<lparr>TotalVotes := 1\<rparr>) \<and>
    \<not> set_and_before (ExpiresAt (best_color_poll\<lparr>TotalVotes := 1\<rparr>)) 10 \<and>
    repo_HasVoted PollRepository 1 ''v1'' best_color_voted_DB =
      ((True, Some 2, None), best_color_voted_DB)"
    by (simp del: One_nat_def add: get_best_color_voted has_voted_best_color_voted set_and_before_def)
  have p5: "repo_GetPollByID PollRepository 1 best_color_DB =
      ((Some best_color_poll, None), best_color_DB) \<and>
    IsActive best_color_poll \<and> \<not> set_and_before (ExpiresAt best_color_poll) 10 \<and>
    repo_HasVoted PollRepository 1 ''v1'' best_color_DB = ((False, None, None), best_color_DB) \<and>
    repo_GetPollOptions PollRepository 1 best_color_DB =
      (([red_option, blue_option], None), best_color_DB) \<and>
    7 \<notin> PollOption_ID ` set [red_option, blue_option]"
    by (simp del: One_nat_def add: get_best_color has_voted_best_color options_best_color
        set_and_before_def)
  have p6: "repo_GetPollByID PollRepository 1 best_color_DB =
      ((Some best_color_poll, None), best_color_DB) \<and>
    IsActive best_color_poll \<and> \<not> set_and_before (ExpiresAt best_color_poll) 10 \<and>
    repo_HasVoted PollRepository 1 ''v1'' best_color_DB = ((False, None, None), best_color_DB) \<and>
    repo_GetPollOptions PollRepository 1 best_color_DB =
      (([red_option, blue_option], None), best_color_DB) \<and>
    2 \<in> PollOption_ID ` set [red_option, blue_option] \<and>
    repo_CastVote PollRepository (new_vote 1 2 ''v1'') best_color_DB =
      (((new_vote 1 2 ''v1'')\<lparr>Vote_ID := 4, VotedAt := 0\<rparr>, None), best_color_voted_DB)"
    by (simp del: One_nat_def add: get_best_color has_voted_best_color options_best_color
        cast_best_color set_and_before_def)
  note T = CastVote_check_order [where calls = "[]" and now = 10]
  note c1 = T [THEN conjunct1, THEN mp, OF p1]
  note c2 = T [THEN conjunct2, THEN conjunct1, THEN mp, OF p2]
  note c3 = T [THEN conjunct2, THEN conjunct2, THEN conjunct1, THEN mp, OF p3]
  note c4 = T [THEN conjunct2, THEN conjunct2, THEN conjunct2, THEN conjunct1, THEN mp, OF p4]
  note c5 = T [THEN conjunct2, THEN conjunct2, THEN conjunct2, THEN conjunct2, THEN conjunct1,
      THEN mp, OF p5]
  note c6 = T [THEN conjunct2, THEN conjunct2, THEN conjunct2, THEN conjunct2, THEN conjunct2,
      THEN conjunct1, THEN mp, OF p6]
  show ?thesis
    using c1 [of 2 "''v1''"] c2 [of 2 "''v1''"] c3 [of 2 "''v1''"] c4 [of 3] c5 c6 by simp
qed

section \<open>CreatePoll: validation before storage\<close>

text \<open>
  What holds of C5: a question shorter than 5 or longer than 500 bytes, fewer than 2 or
  more than 10 options, an option shorter than 1 or longer than 200 bytes, and an expiry
  before the current time are each refused with a validation error, and the recording
  repository shows no call: no state is created. A request that passes every rule
  reaches \<open>CreatePoll\<close> of the repository.
\<close>

lemma validate_options_None:
  "validate_options i opts = None \<longleftrightarrow> (\<forall>opt \<in> set opts. 1 \<le> length opt \<and> length opt \<le> 200)"
  by (induction opts arbitrary: i) (auto simp: Suc_le_eq)

lemma validate_options_Some:
  "validate_options i opts = Some e \<Longrightarrow> ValidationError e"
  by (induction opts arbitrary: i) (auto split: if_splits)

lemma CreatePoll_rejects_before_storage:
  assumes "length (Request_Question req) < 5 \<or> length (Request_Question req) > 500 \<or>
           length (Request_Options req) < 2 \<or> length (Request_Options req) > 10 \<or>
           (\<exists>opt \<in> set (Request_Options req). length opt < 1 \<or> length opt > 200) \<or>
           (\<exists>t. Request_ExpiresAt req = Some t \<and> t < now)"
  shows "\<exists>e. CreatePoll (MockPollRepository r) now req (s, calls) = (Inl e, s, calls) \<and> ValidationError e"
proof (cases "validate_options 0 (Request_Options req)")
  case None
  then have "\<forall>opt \<in> set (Request_Options req). 1 \<le> length opt \<and> length opt \<le> 200"
    by (simp add: validate_options_None)
  with assms None show ?thesis
    by (fastforce simp: CreatePoll_def set_and_before_def)
next
  case (Some e)
  then show ?thesis
    by (auto simp: CreatePoll_def set_and_before_def dest: validate_options_Some)
qed

lemma CreatePoll_reaches_storage:
  assumes "5 \<le> length (Request_Question req)" "length (Request_Question req) \<le> 500"
    "2 \<le> length (Request_Options req)" "length (Request_Options req) \<le> 10"
    "\<forall>opt \<in> set (Request_Options req). 1 \<le> length opt \<and> length opt \<le> 200"
    "\<not> set_and_before (Request_ExpiresAt req) now"
  shows "snd (snd (CreatePoll (MockPollRepository r) now req (s, calls))) =
     calls @ [Call_CreatePoll \<lparr>Poll_ID = 0, Question = Request_Question req,
                 Description = Request_Description req, Poll_CreatedAt = 0,
                 ExpiresAt = Request_ExpiresAt req, IsActive = True, TotalVotes = 0\<rparr>
               (make_options 0 (Request_Options req))]"
proof -
  have v: "validate_options 0 (Request_Options req) = None"
    using assms(5) by (simp add: validate_options_None)
  obtain p os e s' where "repo_CreatePoll r \<lparr>Poll_ID = 0, Question = Request_Question req,
                 Description = Request_Description req, Poll_CreatedAt = 0,
                 ExpiresAt = Request_ExpiresAt req, IsActive = True, TotalVotes = 0\<rparr>
               (make_options 0 (Request_Options req)) s = ((p, os, e), s')"
    by (metis surj_pair)
  with assms v show ?thesis
    by (cases e) (simp_all add: CreatePoll_def Let_def)
qed

text \<open>
  C5, the failing input: a request whose \<open>ExpiresAt\<close> equals the current time is not
  refused. \<open>Before\<close> is strict, so the expiry \<open>100\<close> at time \<open>100\<close> passes the rule whose
  message is \<open>expiration date must be in the future\<close>; the repository is called and the
  poll is stored.
\<close>

theorem CreatePoll_expiry_now_accepted:
  "CreatePoll (MockPollRepository PollRepository) 100
      (best_color\<lparr>Request_ExpiresAt := Some 100\<rparr>) (empty_DB, []) =
     (Inr \<lparr>PollWithOptions_Poll = best_color_poll\<lparr>ExpiresAt := Some 100\<rparr>,
           PollWithOptions_Options = [red_option, blue_option]\<rparr>,
      best_color_DB\<lparr>polls := [best_color_poll\<lparr>ExpiresAt := Some 100\<rparr>]\<rparr>,
      [Call_CreatePoll \<lparr>Poll_ID = 0, Question = ''Best color?'', Description = None,
          Poll_CreatedAt = 0, ExpiresAt = Some 100, IsActive = True, TotalVotes = 0\<rparr>
        (make_options 0 [''Red'', ''Blue''])])"
  by (simp add: CreatePoll_def PollRepository_CreatePoll_def sql_defs example_defs set_and_before_def Let_def)

end
